theory Spec2Isabelle
  imports Main "HOL-Library.Word" "HOL-Library.Log_Nat" "HOL-Library.Signed_Division"
begin

section \<open>Go values used by the package\<close>

text \<open>
  Go's \<^verbatim>\<open>int\<close> is a machine integer; on the 64-bit platforms it is 64 bits wide, and
  \<^verbatim>\<open>+\<close> and \<^verbatim>\<open>-\<close> wrap around. It is read as a signed number with \<open>sint\<close>.
\<close>

type_synonym go_int = "64 word"

type_synonym int64 = "64 word"

text \<open>The run-time panic raised by a slice expression whose bounds are out of range.\<close>

datatype panic = SliceBoundsOutOfRange

text \<open>
  A slice is a window on a backing array: \<open>elems\<close> are the \<^verbatim>\<open>len\<close> elements the slice
  shows, \<open>spare\<close> the elements of the backing array between \<^verbatim>\<open>len\<close> and \<^verbatim>\<open>cap\<close>, which
  a slice expression may bring back into view.
\<close>

record 'a go_slice =
  elems :: "'a list"
  spare :: "'a list"

definition len_slice :: "'a go_slice \<Rightarrow> int" where
  "len_slice s = int (length (elems s))"

definition cap_slice :: "'a go_slice \<Rightarrow> int" where
  "cap_slice s = int (length (elems s) + length (spare s))"

text \<open>The length and the capacity of a slice are values of type \<^verbatim>\<open>int\<close>.\<close>

definition valid_slice :: "'a go_slice \<Rightarrow> bool" where
  "valid_slice s \<longleftrightarrow> cap_slice s < 2 ^ 63"

text \<open>\<^verbatim>\<open>s[:hi]\<close>: the bound is checked against the capacity, \<^verbatim>\<open>0 <= hi <= cap(s)\<close>.\<close>

definition slice_high :: "'a go_slice \<Rightarrow> int \<Rightarrow> panic + 'a go_slice" where
  "slice_high s hi =
     (if 0 \<le> hi \<and> hi \<le> cap_slice s
      then Inr \<lparr>elems = take (nat hi) (elems s @ spare s),
                spare = drop (nat hi) (elems s @ spare s)\<rparr>
      else Inl SliceBoundsOutOfRange)"

text \<open>\<^verbatim>\<open>s[lo:]\<close>: the high bound defaults to \<^verbatim>\<open>len(s)\<close>, so \<^verbatim>\<open>0 <= lo <= len(s)\<close>.\<close>

definition slice_low :: "'a go_slice \<Rightarrow> int \<Rightarrow> panic + 'a go_slice" where
  "slice_low s lo =
     (if 0 \<le> lo \<and> lo \<le> len_slice s
      then Inr \<lparr>elems = drop (nat lo) (elems s), spare = spare s\<rparr>
      else Inl SliceBoundsOutOfRange)"

text \<open>
  \<^verbatim>\<open>append(s, t...)\<close>: when the elements fit in the capacity of \<open>s\<close> they are written
  behind it in the same backing array, and what is left of the array stays spare. Otherwise
  a new array is allocated; Go leaves its capacity to the run time, and the model takes the
  smallest one. \<open>RemoveRow\<close> only appends what fits (lemma \<open>RemoveRow_append_fits\<close>).
\<close>

definition append_slices :: "'a go_slice \<Rightarrow> 'a go_slice \<Rightarrow> 'a go_slice" where
  "append_slices s t =
     (if len_slice s + len_slice t \<le> cap_slice s
      then \<lparr>elems = elems s @ elems t, spare = drop (length (elems t)) (spare s)\<rparr>
      else \<lparr>elems = elems s @ elems t, spare = []\<rparr>)"

section \<open>Row removal (rwsheets.go)\<close>

text \<open>
  \<^verbatim>\<open>
  func RemoveRow(rows []*sheets.RowData, rmvIdx int) []*sheets.RowData {
      if len(rows) == rmvIdx {
          // Let's assume we wanted to remove the last row ..
          return rows[:rmvIdx-2]
      }
      if rmvIdx+1 > len(rows) {
          return rows
      }
      return append(rows[:rmvIdx], rows[rmvIdx+1:]...)
  }
  \<close>
  The rows are pointers the function never looks into: the element type is a parameter.
\<close>

definition RemoveRow :: "'a go_slice \<Rightarrow> go_int \<Rightarrow> panic + 'a go_slice" where
  "RemoveRow rows rmvIdx =
     (if len_slice rows = sint rmvIdx then slice_high rows (sint (rmvIdx - 2))
      else if sint (rmvIdx + 1) > len_slice rows then Inr rows
      else (case slice_high rows (sint rmvIdx) of
              Inl p \<Rightarrow> Inl p
            | Inr front \<Rightarrow>
                (case slice_low rows (sint (rmvIdx + 1)) of
                   Inl p \<Rightarrow> Inl p
                 | Inr back \<Rightarrow> Inr (append_slices front back))))"


section \<open>The spreadsheet API's types (google.golang.org/api/sheets/v4)\<close>

text \<open>
  The structs of the client library, with the fields this package sets; every other field
  keeps its zero value. A pointer field is an \<open>option\<close>, \<open>None\<close> for \<^verbatim>\<open>nil\<close>.

  A \<^verbatim>\<open>float64\<close> is modelled by the rational number it stands for. The values met here are
  finite; arithmetic on them rounds, see \<open>round64\<close> below.
\<close>

type_synonym float64 = rat

record Color =
  Alpha :: float64
  Blue :: float64
  Green :: float64
  Red :: float64

record ColorStyle =
  RgbColor :: "Color option"

record Border =
  ColorStyle :: "ColorStyle option"
  Style :: string

record Borders =
  Bottom :: "Border option"
  Left :: "Border option"
  Right :: "Border option"
  Top :: "Border option"

record TextFormat =
  Bold :: bool
  FontFamily :: string
  FontSize :: int64

record NumberFormat =
  Pattern :: string
  Type :: string

record CellFormat =
  Borders :: "Borders option"
  HorizontalAlignment :: string
  NumberFormat :: "NumberFormat option"
  TextFormat :: "TextFormat option"
  VerticalAlignment :: string

record ExtendedValue =
  BoolValue :: "bool option"
  FormulaValue :: "string option"
  NumberValue :: "float64 option"
  StringValue :: "string option"

record CellData =
  UserEnteredFormat :: "CellFormat option"
  UserEnteredValue :: "ExtendedValue option"

section \<open>The package's own types (doc.go)\<close>

text \<open>
  \<^verbatim>\<open>
  type BorderConf struct {
      Bottom bool
      Left   bool
      Right  bool
      Style  string
      Top    bool
      Color  *sheets.ColorStyle // Optional. Color will be set to black if not set.
  }
  \<close>
  The fields share their names with those of \<open>Borders\<close> and \<open>Border\<close>; below they are
  written with the record's name in front.
\<close>

record BorderConf =
  Bottom :: bool
  Left :: bool
  Right :: bool
  Style :: string
  Top :: bool
  Color :: "ColorStyle option"

record Styler =
  fontBold :: bool
  fontFamily :: string
  fontSize :: int64
  datePattern :: string
  numberPattern :: string
  horizontalAlignment :: string
  verticalAlignment :: string

section \<open>Values and borders (rwsheets.go, doc.go)\<close>

definition TextValue :: "string \<Rightarrow> ExtendedValue" where
  "TextValue v =
     \<lparr>BoolValue = None, FormulaValue = None, NumberValue = None, StringValue = Some v\<rparr>"

definition NumberValue :: "float64 \<Rightarrow> ExtendedValue" where
  "NumberValue v =
     \<lparr>BoolValue = None, FormulaValue = None, ExtendedValue.NumberValue = Some v,
      StringValue = None\<rparr>"

text \<open>\<^verbatim>\<open>func Color(a, b, g, r float64) *sheets.ColorStyle\<close>\<close>

definition Color :: "float64 \<Rightarrow> float64 \<Rightarrow> float64 \<Rightarrow> float64 \<Rightarrow> ColorStyle" where
  "Color a b g r = \<lparr>RgbColor = Some \<lparr>Alpha = a, Blue = b, Green = g, Red = r\<rparr>\<rparr>"

text \<open>\<^verbatim>\<open>var BLACK_COLOR = Color(1, 0, 0, 0)\<close>\<close>

definition BLACK_COLOR :: ColorStyle where
  "BLACK_COLOR = Color 1 0 0 0"

text \<open>
  \<^verbatim>\<open>
  func CellBorders(conf *BorderConf) *sheets.Borders {
      var borders sheets.Borders
      style := conf.Style
      if style == "" { style = "SOLID" }
      color := conf.Color
      if color == nil { color = BLACK_COLOR }
      if conf.Bottom { borders.Bottom = &sheets.Border{ColorStyle: color, Style: style} }
      if conf.Left   { borders.Left   = &sheets.Border{ColorStyle: color, Style: style} }
      if conf.Right  { borders.Right  = &sheets.Border{ColorStyle: color, Style: style} }
      if conf.Top    { borders.Top    = &sheets.Border{ColorStyle: color, Style: style} }
      return &borders
  }
  \<close>
  The argument is the configuration \<open>conf\<close> points to: the cell constructors call the
  function only behind \<^verbatim>\<open>borders != nil\<close>.
\<close>

definition CellBorders :: "BorderConf \<Rightarrow> Borders" where
  "CellBorders conf =
     (let style = (if BorderConf.Style conf = [] then ''SOLID'' else BorderConf.Style conf);
          color = (case BorderConf.Color conf of None \<Rightarrow> BLACK_COLOR | Some c \<Rightarrow> c);
          border = \<lparr>ColorStyle = Some color, Border.Style = style\<rparr>
      in \<lparr>Borders.Bottom = (if BorderConf.Bottom conf then Some border else None),
          Borders.Left = (if BorderConf.Left conf then Some border else None),
          Borders.Right = (if BorderConf.Right conf then Some border else None),
          Borders.Top = (if BorderConf.Top conf then Some border else None)\<rparr>)"

section \<open>The styler (doc.go)\<close>

definition NewStyler :: Styler where
  "NewStyler =
     \<lparr>fontBold = False, fontFamily = ''Verdana'', fontSize = 10, datePattern = ''M/d/yyyy'',
      numberPattern = ''#,##0.00_);-#,##0.00'', horizontalAlignment = ''LEFT'',
      verticalAlignment = ''MIDDLE''\<rparr>"

text \<open>The methods \<^verbatim>\<open>(s *Styler) TextFormat()\<close> and \<^verbatim>\<open>(s *Styler) DateFormat()\<close>.\<close>

definition Styler_TextFormat :: "Styler \<Rightarrow> TextFormat" where
  "Styler_TextFormat s =
     \<lparr>Bold = fontBold s, FontFamily = fontFamily s, FontSize = fontSize s\<rparr>"

definition Styler_DateFormat :: "Styler \<Rightarrow> NumberFormat" where
  "Styler_DateFormat s = \<lparr>Pattern = datePattern s, Type = ''DATE''\<rparr>"

text \<open>
  \<^verbatim>\<open>
  func (s *Styler) TextCell(value string, borders *BorderConf) *sheets.CellData {
      format := sheets.CellFormat{
          HorizontalAlignment: s.horizontalAlignment,
          TextFormat:          s.TextFormat(),
          VerticalAlignment:   s.verticalAlignment,
      }
      if borders != nil { format.Borders = CellBorders(borders) }
      return &sheets.CellData{UserEnteredFormat: &format, UserEnteredValue: TextValue(value)}
  }
  \<close>
\<close>

definition TextCell :: "Styler \<Rightarrow> string \<Rightarrow> BorderConf option \<Rightarrow> CellData" where
  "TextCell s v borders =
     (let format = \<lparr>Borders = None,
                     HorizontalAlignment = horizontalAlignment s,
                     NumberFormat = None,
                     TextFormat = Some (Styler_TextFormat s),
                     VerticalAlignment = verticalAlignment s\<rparr>;
          format = (case borders of
                      None \<Rightarrow> format
                    | Some conf \<Rightarrow> format\<lparr>Borders := Some (CellBorders conf)\<rparr>)
      in \<lparr>UserEnteredFormat = Some format, UserEnteredValue = Some (TextValue v)\<rparr>)"

section \<open>The parts of Go's standard library that SerialDate calls\<close>

text \<open>
  \<open>SerialDate\<close> calls \<^verbatim>\<open>time.Parse\<close>, \<^verbatim>\<open>Time.Sub\<close> and \<^verbatim>\<open>Duration.Hours\<close> and divides
  two \<^verbatim>\<open>float64\<close>. These belong to Go, not to the package; they are modelled here after
  the documentation and the sources of package \<^verbatim>\<open>time\<close>.
\<close>

subsection \<open>Arithmetic on float64\<close>

text \<open>
  Every operation on \<^verbatim>\<open>float64\<close> returns the exact result rounded to the nearest number
  with a 53-bit significand, ties to the even one. \<open>ilog2 x\<close> is the exponent of \<open>x > 0\<close>,
  the integer \<open>e\<close> with \<open>pow2 e \<le> x < pow2 (e + 1)\<close>; below \<open>pow2 (- 1022)\<close> the spacing
  stays that of the subnormal numbers. Results of \<open>pow2 1024\<close> and more, which overflow to
  infinity, do not arise from the durations and constants used here.
\<close>

definition pow2 :: "int \<Rightarrow> rat" where
  "pow2 e = (if 0 \<le> e then 2 ^ nat e else 1 / 2 ^ nat (- e))"

definition ilog2 :: "rat \<Rightarrow> int" where
  "ilog2 x = (if 1 \<le> x then bitlen \<lfloor>x\<rfloor> - 1 else - bitlen (\<lceil>1 / x\<rceil> - 1))"

definition round_half_even :: "rat \<Rightarrow> int" where
  "round_half_even x =
     (let f = \<lfloor>x\<rfloor>; r = x - of_int f
      in if r < 1 / 2 then f else if 1 / 2 < r then f + 1 else if even f then f else f + 1)"

definition round64 :: "rat \<Rightarrow> float64" where
  "round64 x =
     (if x = 0 then 0
      else let u = pow2 (max (ilog2 \<bar>x\<bar>) (- 1022) - 52)
           in of_int (round_half_even (x / u)) * u)"

subsection \<open>Calendar dates and instants\<close>

text \<open>
  \<^verbatim>\<open>
  func isLeap(year int) bool { return year%4 == 0 && (year%100 != 0 || year%400 == 0) }
  \<close>
\<close>

definition isLeap :: "int \<Rightarrow> bool" where
  "isLeap year \<longleftrightarrow> year mod 4 = 0 \<and> (year mod 100 \<noteq> 0 \<or> year mod 400 = 0)"

text \<open>\<^verbatim>\<open>daysBefore[m]\<close> counts the days of a non-leap year before month \<open>m + 1\<close>.\<close>

definition daysBefore :: "int list" where
  "daysBefore = [0, 31, 59, 90, 120, 151, 181, 212, 243, 273, 304, 334, 365]"

definition daysIn :: "int \<Rightarrow> int \<Rightarrow> int" where
  "daysIn m year =
     (if m = 2 \<and> isLeap year then 29 else daysBefore ! nat m - daysBefore ! nat (m - 1))"

text \<open>
  A \<^verbatim>\<open>time.Time\<close> is an instant: seconds since January 1 of year 1, 00:00:00 UTC, and
  nanoseconds within the second. The location only matters for printing, and a parsed
  time has no monotonic clock reading.
\<close>

record Time =
  sec :: int
  nsec :: int

text \<open>Days from January 1 of year 1 to January 1 of \<open>year\<close>, in the proleptic Gregorian calendar.\<close>

definition daysSinceYear1 :: "int \<Rightarrow> int" where
  "daysSinceYear1 year = (let y = year - 1 in 365 * y + y div 4 - y div 100 + y div 400)"

text \<open>
  \<^verbatim>\<open>time.Date(year, month, day, hour, min, sec, nsec, time.UTC)\<close>. Values outside their
  usual ranges are normalised: months carry into the year, and the rest adds up.
\<close>

definition Date :: "int \<Rightarrow> int \<Rightarrow> int \<Rightarrow> int \<Rightarrow> int \<Rightarrow> int \<Rightarrow> int \<Rightarrow> Time" where
  "Date year month day hour minute second nanosecond =
     (let m = month - 1;
          y = year + m div 12;
          mo = m mod 12 + 1;
          d = daysSinceYear1 y + daysBefore ! nat (mo - 1)
                + (if isLeap y \<and> 3 \<le> mo then 1 else 0) + (day - 1);
          s = d * 86400 + hour * 3600 + minute * 60 + second
      in \<lparr>sec = s + nanosecond div 1000000000, nsec = nanosecond mod 1000000000\<rparr>)"

subsection \<open>Durations\<close>

text \<open>
  A \<^verbatim>\<open>time.Duration\<close> is an \<^verbatim>\<open>int64\<close> count of nanoseconds, about 292 years at most.
  \<^verbatim>\<open>t.Sub(u)\<close> is \<open>t - u\<close>; when that does not fit, it is the largest or the smallest
  duration.
\<close>

type_synonym Duration = int

definition minDuration :: Duration where
  "minDuration = - (2 ^ 63)"

definition maxDuration :: Duration where
  "maxDuration = 2 ^ 63 - 1"

definition Sub :: "Time \<Rightarrow> Time \<Rightarrow> Duration" where
  "Sub t u =
     (let d = (sec t - sec u) * 1000000000 + (nsec t - nsec u)
      in if minDuration \<le> d \<and> d \<le> maxDuration then d
         else if d < 0 then minDuration else maxDuration)"

text \<open>
  \<^verbatim>\<open>
  func (d Duration) Hours() float64 {
      hour := d / Hour
      nsec := d % Hour
      return float64(hour) + float64(nsec)/(60*60*1e9)
  }
  \<close>
  Go's integer division truncates towards zero (\<open>sdiv\<close>, \<open>smod\<close>).
\<close>

definition Hours :: "Duration \<Rightarrow> float64" where
  "Hours d =
     (let hour = d sdiv 3600000000000; ns = d smod 3600000000000
      in round64 (round64 (of_int hour) + round64 (round64 (of_int ns) / 3600000000000)))"

subsection \<open>Parsing a date under a layout\<close>

text \<open>
  \<^verbatim>\<open>time.Parse(layout, value)\<close> reads the layout as literal text with elements of the
  reference time in it (\<^verbatim>\<open>Mon Jan 2 15:04:05 MST 2006\<close>), as package \<^verbatim>\<open>time\<close> of Go 1.22
  does. The layout is cut into elements exactly as \<^verbatim>\<open>nextStdChunk\<close> cuts it. The elements
  of a calendar date are read as Go reads them: the year (\<^verbatim>\<open>2006\<close>, \<^verbatim>\<open>06\<close>), the month
  (\<^verbatim>\<open>January\<close>, \<^verbatim>\<open>Jan\<close>, \<^verbatim>\<open>1\<close>, \<^verbatim>\<open>01\<close>), the day (\<^verbatim>\<open>2\<close>, \<^verbatim>\<open>_2\<close>, \<^verbatim>\<open>02\<close>) and the day of
  the week (\<^verbatim>\<open>Monday\<close>, \<^verbatim>\<open>Mon\<close>), and so is a fraction of a second that the layout allows
  (\<^verbatim>\<open>.999\<close>) and the value leaves out.

  For the other elements (the day of the year, the clock, the zone, a fraction of a second
  that is present) the time that results depends on more than is modelled here, the local
  time zone among it. There the function \<open>parseElem\<close> applies the test with which Go
  starts to read the element: when the test fails, \<^verbatim>\<open>time.Parse\<close> fails; when it passes,
  the result of the whole call is that of the parameter \<open>ext\<close>, which stands for
  \<^verbatim>\<open>time.Parse\<close> on such a layout and value. What is proved below holds for every \<open>ext\<close>.

  The error carries the layout and the value, as \<^verbatim>\<open>*time.ParseError\<close> does; its other
  fields only word the message.
\<close>

datatype error = ParseError (Layout: string) (Value: string)

type_synonym parser = "string \<Rightarrow> string \<Rightarrow> error + Time"

text \<open>The elements of a layout, with Go's names; \<open>std0\<close> is Go's 0, no element.\<close>

datatype std = std0
  | stdLongMonth | stdMonth | stdNumMonth | stdZeroMonth
  | stdLongWeekDay | stdWeekDay
  | stdDay | stdUnderDay | stdZeroDay | stdUnderYearDay | stdZeroYearDay
  | stdHour | stdHour12 | stdZeroHour12 | stdMinute | stdZeroMinute | stdSecond | stdZeroSecond
  | stdLongYear | stdYear
  | stdPM | stdpm
  | stdTZ
  | stdISO8601TZ | stdISO8601SecondsTZ | stdISO8601ShortTZ | stdISO8601ColonTZ
  | stdISO8601ColonSecondsTZ
  | stdNumTZ | stdNumSecondsTz | stdNumShortTZ | stdNumColonTZ | stdNumColonSecondsTZ
  | stdFracSecond0 | stdFracSecond9

definition hasPrefix :: "string \<Rightarrow> string \<Rightarrow> bool" where
  "hasPrefix s p \<longleftrightarrow> take (length p) s = p"

text \<open>\<^verbatim>\<open>isDigit(s, i)\<close>: the string has a decimal digit at index \<open>i\<close>.\<close>

definition isDigit :: "string \<Rightarrow> nat \<Rightarrow> bool" where
  "isDigit s i \<longleftrightarrow> i < length s \<and> (48::nat) \<le> of_char (s ! i) \<and> of_char (s ! i) \<le> (57::nat)"

text \<open>
  \<^verbatim>\<open>
  func startsWithLowerCase(str string) bool {
      if len(str) == 0 { return false }
      c := str[0]
      return 'a' <= c && c <= 'z'
  }
  \<close>
\<close>

definition startsWithLowerCase :: "string \<Rightarrow> bool" where
  "startsWithLowerCase str \<longleftrightarrow>
     str \<noteq> [] \<and> (97::nat) \<le> of_char (hd str) \<and> of_char (hd str) \<le> (122::nat)"

text \<open>
  A fraction of a second in a layout: a point or a comma, then zeros or nines, and no
  digit behind them (\<^verbatim>\<open>.000\<close>, \<^verbatim>\<open>,999\<close>); the result is the element and the number of
  characters it takes. Behind \<^verbatim>\<open>02\<close> the point of \<^verbatim>\<open>02.01.2006\<close> is text.
\<close>

definition fracAt :: "string \<Rightarrow> (std \<times> nat) option" where
  "fracAt l =
     (case l of
        c # d # rest \<Rightarrow>
          if (c = CHR ''.'' \<or> c = CHR '','') \<and> (d = CHR ''0'' \<or> d = CHR ''9'')
             \<and> \<not> isDigit (dropWhile (\<lambda>x. x = d) rest) 0
          then Some (if d = CHR ''9'' then stdFracSecond9 else stdFracSecond0,
                     2 + length (takeWhile (\<lambda>x. x = d) rest))
          else None
      | _ \<Rightarrow> None)"

text \<open>
  The element that starts at the head of the layout, if any: the text it leaves to the
  prefix (the underscore of \<^verbatim>\<open>_2006\<close>), the element and the number of characters read.
  The tests are those of the switch on the first character in \<^verbatim>\<open>nextStdChunk\<close>, in its
  order; \<^verbatim>\<open>Jan\<close> and \<^verbatim>\<open>Mon\<close> with a lower-case letter behind them are text, as in
  \<^verbatim>\<open>Month\<close>, unless the word is \<^verbatim>\<open>January\<close> or \<^verbatim>\<open>Monday\<close>.
\<close>

definition stdAt :: "string \<Rightarrow> (string \<times> std \<times> nat) option" where
  "stdAt l =
     (if hasPrefix l ''Jan'' then
        (if hasPrefix l ''January'' then Some ([], stdLongMonth, 7)
         else if startsWithLowerCase (drop 3 l) then None
         else Some ([], stdMonth, 3))
      else if hasPrefix l ''Mon'' then
        (if hasPrefix l ''Monday'' then Some ([], stdLongWeekDay, 6)
         else if startsWithLowerCase (drop 3 l) then None
         else Some ([], stdWeekDay, 3))
      else if hasPrefix l ''MST'' then Some ([], stdTZ, 3)
      else if hasPrefix l ''01'' then Some ([], stdZeroMonth, 2)
      else if hasPrefix l ''02'' then Some ([], stdZeroDay, 2)
      else if hasPrefix l ''03'' then Some ([], stdZeroHour12, 2)
      else if hasPrefix l ''04'' then Some ([], stdZeroMinute, 2)
      else if hasPrefix l ''05'' then Some ([], stdZeroSecond, 2)
      else if hasPrefix l ''06'' then Some ([], stdYear, 2)
      else if hasPrefix l ''002'' then Some ([], stdZeroYearDay, 3)
      else if hasPrefix l ''15'' then Some ([], stdHour, 2)
      else if hasPrefix l ''1'' then Some ([], stdNumMonth, 1)
      else if hasPrefix l ''2006'' then Some ([], stdLongYear, 4)
      else if hasPrefix l ''2'' then Some ([], stdDay, 1)
      else if hasPrefix l ''_2006'' then Some (''_'', stdLongYear, 5)
      else if hasPrefix l ''_2'' then Some ([], stdUnderDay, 2)
      else if hasPrefix l ''__2'' then Some ([], stdUnderYearDay, 3)
      else if hasPrefix l ''3'' then Some ([], stdHour12, 1)
      else if hasPrefix l ''4'' then Some ([], stdMinute, 1)
      else if hasPrefix l ''5'' then Some ([], stdSecond, 1)
      else if hasPrefix l ''PM'' then Some ([], stdPM, 2)
      else if hasPrefix l ''pm'' then Some ([], stdpm, 2)
      else if hasPrefix l ''-070000'' then Some ([], stdNumSecondsTz, 7)
      else if hasPrefix l ''-07:00:00'' then Some ([], stdNumColonSecondsTZ, 9)
      else if hasPrefix l ''-0700'' then Some ([], stdNumTZ, 5)
      else if hasPrefix l ''-07:00'' then Some ([], stdNumColonTZ, 6)
      else if hasPrefix l ''-07'' then Some ([], stdNumShortTZ, 3)
      else if hasPrefix l ''Z070000'' then Some ([], stdISO8601SecondsTZ, 7)
      else if hasPrefix l ''Z07:00:00'' then Some ([], stdISO8601ColonSecondsTZ, 9)
      else if hasPrefix l ''Z0700'' then Some ([], stdISO8601TZ, 5)
      else if hasPrefix l ''Z07:00'' then Some ([], stdISO8601ColonTZ, 6)
      else if hasPrefix l ''Z07'' then Some ([], stdISO8601ShortTZ, 3)
      else (case fracAt l of
              Some (std, n) \<Rightarrow> Some ([], std, n)
            | None \<Rightarrow> None))"

text \<open>
  \<^verbatim>\<open>nextStdChunk(layout) (prefix string, std int, suffix string)\<close>: the text before the
  first element, the element, and the rest; \<open>std0\<close> when the layout holds no element.
\<close>

fun nextStdChunk :: "string \<Rightarrow> string \<times> std \<times> string" where
  "nextStdChunk [] = ([], std0, [])"
| "nextStdChunk (c # cs) =
     (case stdAt (c # cs) of
        Some (prefix, std, n) \<Rightarrow> (prefix, std, drop n (c # cs))
      | None \<Rightarrow> (case nextStdChunk cs of (prefix, r) \<Rightarrow> (c # prefix, r)))"

definition cutspace :: "string \<Rightarrow> string" where
  "cutspace s = dropWhile (\<lambda>c. c = CHR '' '') s"

text \<open>
  \<^verbatim>\<open>
  func skip(value, prefix string) (string, error) {
      for len(prefix) > 0 {
          if prefix[0] == ' ' {
              if len(value) > 0 && value[0] != ' ' { return value, errBad }
              prefix = cutspace(prefix)
              value = cutspace(value)
              continue
          }
          if len(value) == 0 || value[0] != prefix[0] { return value, errBad }
          prefix = prefix[1:]
          value = value[1:]
      }
      return value, nil
  }
  \<close>
\<close>

function skip :: "string \<Rightarrow> string \<Rightarrow> string option" where
  "skip value [] = Some value"
| "skip value (p # ps) =
     (if p = CHR '' ''
      then (if value \<noteq> [] \<and> hd value \<noteq> CHR '' '' then None
            else skip (cutspace value) (cutspace ps))
      else (case value of
              [] \<Rightarrow> None
            | v # vs \<Rightarrow> if v \<noteq> p then None else skip vs ps))"
  by pat_completeness auto
termination
  by (relation "measure (\<lambda>(value, prefix). length prefix)")
     (auto simp: cutspace_def less_Suc_eq_le length_dropWhile_le)

definition digit :: "char \<Rightarrow> int" where
  "digit c = int (of_char c) - 48"

text \<open>
  \<^verbatim>\<open>
  func getnum(s string, fixed bool) (int, string, error) {
      if !isDigit(s, 0) { return 0, s, errBad }
      if !isDigit(s, 1) {
          if fixed { return 0, s, errBad }
          return int(s[0] - '0'), s[1:], nil
      }
      return int(s[0]-'0')*10 + int(s[1]-'0'), s[2:], nil
  }
  \<close>
\<close>

definition getnum :: "string \<Rightarrow> bool \<Rightarrow> (int \<times> string) option" where
  "getnum s fixed =
     (if \<not> isDigit s 0 then None
      else if \<not> isDigit s 1 then (if fixed then None else Some (digit (s ! 0), drop 1 s))
      else Some (digit (s ! 0) * 10 + digit (s ! 1), drop 2 s))"

text \<open>
  \<^verbatim>\<open>atoi\<close>: an optional sign and then digits only. The parser calls it on two or four
  characters, so the number fits.
\<close>

definition atoi :: "string \<Rightarrow> int option" where
  "atoi s =
     (let neg = (s \<noteq> [] \<and> hd s = CHR ''-'');
          ds = (if s \<noteq> [] \<and> (hd s = CHR ''-'' \<or> hd s = CHR ''+'') then tl s else s)
      in if list_ex (\<lambda>i. \<not> isDigit ds i) [0..<length ds] then None
         else let x = foldl (\<lambda>a c. a * 10 + digit c) 0 ds in Some (if neg then - x else x))"

text \<open>
  \<^verbatim>\<open>
  func match(s1, s2 string) bool {
      for i := 0; i < len(s1); i++ {
          c1 := s1[i]
          c2 := s2[i]
          if c1 != c2 {
              // Switch to lower-case; 'a'-'A' is known to be a single bit.
              c1 |= 'a' - 'A'
              c2 |= 'a' - 'A'
              if c1 != c2 || c1 < 'a' || c1 > 'z' { return false }
          }
      }
      return true
  }

  func lookup(tab []string, val string) (int, string, error) {
      for i, v := range tab {
          if len(val) >= len(v) && match(val[0:len(v)], v) { return i, val[len(v):], nil }
      }
      return -1, val, errBad
  }
  \<close>
\<close>

definition matchChar :: "char \<Rightarrow> char \<Rightarrow> bool" where
  "matchChar c1 c2 \<longleftrightarrow>
     c1 = c2
     \<or> (let a = or (of_char c1) (32::nat); b = or (of_char c2) (32::nat)
        in a = b \<and> 97 \<le> a \<and> a \<le> 122)"

definition match :: "string \<Rightarrow> string \<Rightarrow> bool" where
  "match s1 s2 \<longleftrightarrow> list_all2 matchChar s1 s2"

fun lookup_from :: "int \<Rightarrow> string list \<Rightarrow> string \<Rightarrow> (int \<times> string) option" where
  "lookup_from i [] val = None"
| "lookup_from i (v # tab) val =
     (if length v \<le> length val \<and> match (take (length v) val) v
      then Some (i, drop (length v) val)
      else lookup_from (i + 1) tab val)"

definition lookup :: "string list \<Rightarrow> string \<Rightarrow> (int \<times> string) option" where
  "lookup tab val = lookup_from 0 tab val"

definition longDayNames :: "string list" where
  "longDayNames =
     [''Sunday'', ''Monday'', ''Tuesday'', ''Wednesday'', ''Thursday'', ''Friday'', ''Saturday'']"

definition shortDayNames :: "string list" where
  "shortDayNames = [''Sun'', ''Mon'', ''Tue'', ''Wed'', ''Thu'', ''Fri'', ''Sat'']"

definition shortMonthNames :: "string list" where
  "shortMonthNames =
     [''Jan'', ''Feb'', ''Mar'', ''Apr'', ''May'', ''Jun'', ''Jul'', ''Aug'', ''Sep'', ''Oct'',
      ''Nov'', ''Dec'']"

definition longMonthNames :: "string list" where
  "longMonthNames =
     [''January'', ''February'', ''March'', ''April'', ''May'', ''June'', ''July'', ''August'',
      ''September'', ''October'', ''November'', ''December'']"

definition commaOrPeriod :: "char \<Rightarrow> bool" where
  "commaOrPeriod c \<longleftrightarrow> c = CHR ''.'' \<or> c = CHR '',''"

definition isSign :: "char \<Rightarrow> bool" where
  "isSign c \<longleftrightarrow> c = CHR ''+'' \<or> c = CHR ''-''"

text \<open>
  The first tests on the elements read through \<open>ext\<close>. Where one holds, Go returns the
  error:
  \<^item> the day of the year: after the blanks \<^verbatim>\<open>__2\<close> allows, \<^verbatim>\<open>getnum3\<close> wants a digit, and
    three of them for \<^verbatim>\<open>002\<close>;
  \<^item> a numeric zone (\<^verbatim>\<open>-0700\<close> and its variants): at least three characters, a sign, and
    behind the sign the hours, which start with a digit (releases that read the hours with
    \<^verbatim>\<open>atoi\<close> also take a second sign there);
  \<^item> a zone name (\<^verbatim>\<open>MST\<close>): at least three characters; behind a sign, a digit
    (\<^verbatim>\<open>parseSignedOffset\<close>); otherwise an upper-case letter first (\<^verbatim>\<open>UTC\<close>, \<^verbatim>\<open>GMT\<close>, \<^verbatim>\<open>ChST\<close>,
    \<^verbatim>\<open>MeST\<close> or a run of capitals);
  \<^item> a fraction of a second that must be there (\<^verbatim>\<open>.000\<close>): a point or a comma first.
\<close>

definition ydayCannotStart :: "std \<Rightarrow> string \<Rightarrow> bool" where
  "ydayCannotStart std value =
     (let v1 = (if std = stdUnderYearDay \<and> value \<noteq> [] \<and> hd value = CHR '' ''
                then tl value else value);
          v2 = (if std = stdUnderYearDay \<and> v1 \<noteq> [] \<and> hd v1 = CHR '' '' then tl v1 else v1)
      in if isDigit v2 0
         then std = stdZeroYearDay \<and> (if isDigit v2 1 then \<not> isDigit v2 2 else True)
         else True)"

definition offsetCannotStart :: "string \<Rightarrow> bool" where
  "offsetCannotStart value =
     (if length value < 3 then True
      else if isSign (hd value) then (if isDigit value 1 then False else \<not> isSign (value ! 1))
      else True)"

definition zoneCannotStart :: "string \<Rightarrow> bool" where
  "zoneCannotStart value =
     (if length value < 3 then True
      else if isSign (hd value) then \<not> isDigit value 1
      else of_char (hd value) < (65::nat) \<or> (90::nat) < of_char (hd value))"

text \<open>
  What reading one element does: it fails (\<open>Bad\<close>), it sets the year, the month or the
  day and goes on behind what it read, it goes on without a field (\<open>Skip\<close>: a day of the
  week, a fraction of a second left out), or it leaves the call to \<open>ext\<close> (\<open>Outside\<close>).
\<close>

datatype action = Bad | Outside | Skip string | SetYear int string | SetMonth int string
  | SetDay int string

text \<open>
  The body of the switch on the element in \<^verbatim>\<open>time.Parse\<close>. From the source, for the
  elements read here:
  \<^verbatim>\<open>
  case stdYear:
      if len(value) < 2 { err = errBad; break }
      p, value = value[0:2], value[2:]
      year, err = atoi(p)
      if err != nil { break }
      if year >= 69 { year += 1900 } else { year += 2000 }
  case stdLongYear:
      if len(value) < 4 || !isDigit(value, 0) { err = errBad; break }
      p, value = value[0:4], value[4:]
      year, err = atoi(p)
  case stdMonth:
      month, value, err = lookup(shortMonthNames, value)
      month++
  case stdLongMonth:
      month, value, err = lookup(longMonthNames, value)
      month++
  case stdNumMonth, stdZeroMonth:
      month, value, err = getnum(value, std == stdZeroMonth)
      if err == nil && (month <= 0 || 12 < month) { rangeErrString = "month" }
  case stdWeekDay:
      _, value, err = lookup(shortDayNames, value)
  case stdLongWeekDay:
      _, value, err = lookup(longDayNames, value)
  case stdDay, stdUnderDay, stdZeroDay:
      if std == stdUnderDay && len(value) > 0 && value[0] == ' ' { value = value[1:] }
      day, value, err = getnum(value, std == stdZeroDay)
  case stdHour:                   hour, value, err = getnum(value, false) ...
  case stdHour12, stdZeroHour12:  hour, value, err = getnum(value, std == stdZeroHour12) ...
  case stdMinute, stdZeroMinute:  min, value, err = getnum(value, std == stdZeroMinute) ...
  case stdSecond, stdZeroSecond:  sec, value, err = getnum(value, std == stdZeroSecond) ...
  case stdPM:
      if len(value) < 2 { err = errBad; break }
      p, value = value[0:2], value[2:]
      switch p { case "PM": pmSet = true; case "AM": amSet = true; default: err = errBad }
  case stdpm:  (the same with "pm" and "am")
  case stdISO8601TZ, stdISO8601ShortTZ, stdISO8601ColonTZ, stdISO8601SecondsTZ,
       stdISO8601ColonSecondsTZ:
      if len(value) >= 1 && value[0] == 'Z' { value = value[1:]; z = UTC; break }
      fallthrough
  case stdNumTZ, stdNumShortTZ, stdNumColonTZ, stdNumSecondsTz, stdNumColonSecondsTZ: ...
  case stdFracSecond9:
      if len(value) < 2 || !commaOrPeriod(value[0]) || value[1] < '0' || '9' < value[1] {
          // Fractional second omitted.
          break
      }
      ...
  \<close>
\<close>

definition parseElem :: "std \<Rightarrow> string \<Rightarrow> action" where
  "parseElem std value =
     (if std = stdYear then
        (if length value < 2 then Bad
         else (case atoi (take 2 value) of
                 None \<Rightarrow> Bad
               | Some y \<Rightarrow> SetYear (if 69 \<le> y then y + 1900 else y + 2000) (drop 2 value)))
      else if std = stdLongYear then
        (if length value < 4 \<or> \<not> isDigit value 0 then Bad
         else (case atoi (take 4 value) of
                 None \<Rightarrow> Bad
               | Some y \<Rightarrow> SetYear y (drop 4 value)))
      else if std = stdMonth then
        (case lookup shortMonthNames value of
           None \<Rightarrow> Bad
         | Some (m, rest) \<Rightarrow> SetMonth (m + 1) rest)
      else if std = stdLongMonth then
        (case lookup longMonthNames value of
           None \<Rightarrow> Bad
         | Some (m, rest) \<Rightarrow> SetMonth (m + 1) rest)
      else if std = stdNumMonth \<or> std = stdZeroMonth then
        (case getnum value (std = stdZeroMonth) of
           None \<Rightarrow> Bad
         | Some (m, rest) \<Rightarrow> if m \<le> 0 \<or> 12 < m then Bad else SetMonth m rest)
      else if std = stdWeekDay then
        (case lookup shortDayNames value of
           None \<Rightarrow> Bad
         | Some (w, rest) \<Rightarrow> Skip rest)
      else if std = stdLongWeekDay then
        (case lookup longDayNames value of
           None \<Rightarrow> Bad
         | Some (w, rest) \<Rightarrow> Skip rest)
      else if std = stdDay \<or> std = stdUnderDay \<or> std = stdZeroDay then
        (case getnum (if std = stdUnderDay \<and> value \<noteq> [] \<and> hd value = CHR '' ''
                      then tl value else value) (std = stdZeroDay) of
           None \<Rightarrow> Bad
         | Some (d, rest) \<Rightarrow> SetDay d rest)
      else if std = stdUnderYearDay \<or> std = stdZeroYearDay then
        (if ydayCannotStart std value then Bad else Outside)
      else if std = stdHour then
        (if getnum value False = None then Bad else Outside)
      else if std = stdHour12 \<or> std = stdZeroHour12 then
        (if getnum value (std = stdZeroHour12) = None then Bad else Outside)
      else if std = stdMinute \<or> std = stdZeroMinute then
        (if getnum value (std = stdZeroMinute) = None then Bad else Outside)
      else if std = stdSecond \<or> std = stdZeroSecond then
        (if getnum value (std = stdZeroSecond) = None then Bad else Outside)
      else if std = stdPM then
        (if length value < 2 then Bad
         else if take 2 value = ''PM'' \<or> take 2 value = ''AM'' then Outside else Bad)
      else if std = stdpm then
        (if length value < 2 then Bad
         else if take 2 value = ''pm'' \<or> take 2 value = ''am'' then Outside else Bad)
      else if (std = stdISO8601TZ \<or> std = stdISO8601ShortTZ \<or> std = stdISO8601ColonTZ
               \<or> std = stdISO8601SecondsTZ \<or> std = stdISO8601ColonSecondsTZ)
              \<and> value \<noteq> [] \<and> hd value = CHR ''Z'' then Outside
      else if std = stdISO8601TZ \<or> std = stdISO8601ShortTZ \<or> std = stdISO8601ColonTZ
              \<or> std = stdISO8601SecondsTZ \<or> std = stdISO8601ColonSecondsTZ
              \<or> std = stdNumTZ \<or> std = stdNumShortTZ \<or> std = stdNumColonTZ
              \<or> std = stdNumSecondsTz \<or> std = stdNumColonSecondsTZ then
        (if offsetCannotStart value then Bad else Outside)
      else if std = stdTZ then
        (if zoneCannotStart value then Bad else Outside)
      else if std = stdFracSecond0 then
        (if value = [] then Bad else if commaOrPeriod (hd value) then Outside else Bad)
      else if std = stdFracSecond9 then
        (if length value < 2 then Skip value
         else if commaOrPeriod (hd value) \<and> isDigit value 1 then Outside
         else Skip value)
      else Bad)"

text \<open>
  After the loop: a month or a day the layout does not mention is 1 (the year is 0), the
  day must exist in its month, and the time is midnight UTC.
  \<^verbatim>\<open>
  if month < 0 { month = int(January) }
  if day < 0 { day = 1 }
  // Validate the day of the month.
  if day < 1 || day > daysIn(Month(month), year) {
      return Time{}, newParseError(alayout, avalue, "", value, ": day out of range")
  }
  return Date(year, Month(month), day, hour, min, sec, nsec, defaultLocation), nil
  \<close>
\<close>

definition finish :: "string \<Rightarrow> string \<Rightarrow> int \<Rightarrow> int \<Rightarrow> int \<Rightarrow> error + Time" where
  "finish alayout avalue year month day =
     (let month = (if month < 0 then 1 else month);
          day = (if day < 0 then 1 else day)
      in if day < 1 \<or> daysIn month year < day then Inl (ParseError alayout avalue)
         else Inr (Date year month day 0 0 0 0))"

lemma fracAt_pos: "fracAt l = Some (s, n) \<Longrightarrow> 0 < n"
  by (auto simp: fracAt_def split: list.splits if_splits)

lemma stdAt_pos: "stdAt l = Some (p, s, n) \<Longrightarrow> 0 < n"
  unfolding stdAt_def by (auto split: if_splits option.splits dest: fracAt_pos)

lemma nextStdChunk_shorter:
  "nextStdChunk l = (p, s, suf) \<Longrightarrow> s \<noteq> std0 \<Longrightarrow> length suf < length l"
proof (induction l arbitrary: p)
  case Nil
  then show ?case by simp
next
  case (Cons c cs)
  show ?case
  proof (cases "stdAt (c # cs)")
    case None
    with Cons.prems obtain p' where "nextStdChunk cs = (p', s, suf)"
      by (auto split: prod.splits)
    then have "length suf < length cs"
      using Cons.prems(2) by (rule Cons.IH)
    then show ?thesis by simp
  next
    case (Some r)
    obtain q t n where r: "r = (q, t, n)"
      by (cases r)
    have "0 < n"
      using Some r stdAt_pos by blast
    moreover have "suf = drop n (c # cs)"
      using Cons.prems(1) Some r by simp
    ultimately show ?thesis by simp
  qed
qed

text \<open>
  The loop of \<^verbatim>\<open>time.Parse\<close>: each round takes the next element of the layout, skips the
  text before it in the value and reads the element. \<open>alayout\<close> and \<open>avalue\<close> are the two
  strings as passed, for the error.
  \<^verbatim>\<open>
  for {
      var err error
      prefix, std, suffix := nextStdChunk(layout)
      stdstr := layout[len(prefix) : len(layout)-len(suffix)]
      value, err = skip(value, prefix)
      if err != nil { return Time{}, newParseError(alayout, avalue, prefix, value, "") }
      if std == 0 {
          if len(value) != 0 {
              return Time{}, newParseError(alayout, avalue, "", value, ": extra text: "+quote(value))
          }
          break
      }
      layout = suffix
      switch std & stdMask { ... }
      if rangeErrString != "" { return Time{}, newParseError(...) }
      if err != nil { return Time{}, newParseError(alayout, avalue, stdstr, hold, "") }
  }
  \<close>
\<close>

function parse_loop ::
  "parser \<Rightarrow> string \<Rightarrow> string \<Rightarrow> string \<Rightarrow> string \<Rightarrow> int \<Rightarrow> int \<Rightarrow> int \<Rightarrow> error + Time" where
  "parse_loop ext alayout avalue layout value year month day =
     (case nextStdChunk layout of (prefix, std, suffix) \<Rightarrow>
        (case skip value prefix of
           None \<Rightarrow> Inl (ParseError alayout avalue)
         | Some value \<Rightarrow>
            if std = std0 then
              (if value \<noteq> [] then Inl (ParseError alayout avalue)
               else finish alayout avalue year month day)
            else
              (case parseElem std value of
                 Bad \<Rightarrow> Inl (ParseError alayout avalue)
               | Outside \<Rightarrow> ext alayout avalue
               | Skip value \<Rightarrow> parse_loop ext alayout avalue suffix value year month day
               | SetYear y value \<Rightarrow> parse_loop ext alayout avalue suffix value y month day
               | SetMonth m value \<Rightarrow> parse_loop ext alayout avalue suffix value year m day
               | SetDay d value \<Rightarrow> parse_loop ext alayout avalue suffix value year month d)))"
  by pat_completeness auto
termination
  by (relation "measure (\<lambda>(ext, alayout, avalue, layout, rest). length layout)")
     (auto dest: nextStdChunk_shorter [OF sym])

declare parse_loop.simps [simp del]

definition Parse :: "parser \<Rightarrow> string \<Rightarrow> string \<Rightarrow> error + Time" where
  "Parse ext layout value = parse_loop ext layout value layout value 0 (- 1) (- 1)"

text \<open>
  A value for \<open>ext\<close> where a closed term is needed: it rejects what it is asked. The layouts
  and values evaluated below never reach it.
\<close>

definition rejecting :: parser where
  "rejecting layout value = Inl (ParseError layout value)"






section \<open>Serial dates (rwsheets.go)\<close>

text \<open>
  \<^verbatim>\<open>
  func SerialDate(value, format string) (float64, error) {
      newDate, err := time.Parse(format, value)
      if err != nil { return float64(0.0), err }
      startDate, err := time.Parse("1/2/2006", "12/30/1899")
      if err != nil { return float64(0.0), err }
      days := newDate.Sub(startDate).Hours() / 24
      return float64(days), nil
  }
  \<close>
\<close>

definition SerialDate :: "parser \<Rightarrow> string \<Rightarrow> string \<Rightarrow> error + float64" where
  "SerialDate ext value format =
     (case Parse ext format value of
        Inl err \<Rightarrow> Inl err
      | Inr newDate \<Rightarrow>
          (case Parse ext ''1/2/2006'' ''12/30/1899'' of
             Inl err \<Rightarrow> Inl err
           | Inr startDate \<Rightarrow> Inr (round64 (Hours (Sub newDate startDate) / 24))))"

text \<open>
  \<^verbatim>\<open>
  func (s *Styler) DateCell(date, layout string, borders *BorderConf) *sheets.CellData {
      serialDate, err := SerialDate(date, layout)
      if err != nil { return s.TextCell(date, borders) }
      format := sheets.CellFormat{
          HorizontalAlignment: s.horizontalAlignment,
          NumberFormat:        s.DateFormat(),
          TextFormat:          s.TextFormat(),
          VerticalAlignment:   s.verticalAlignment,
      }
      if borders != nil { format.Borders = CellBorders(borders) }
      return &sheets.CellData{UserEnteredFormat: &format, UserEnteredValue: NumberValue(serialDate)}
  }
  \<close>
\<close>

definition DateCell ::
  "parser \<Rightarrow> Styler \<Rightarrow> string \<Rightarrow> string \<Rightarrow> BorderConf option \<Rightarrow> CellData" where
  "DateCell ext s date layout borders =
     (case SerialDate ext date layout of
        Inl err \<Rightarrow> TextCell s date borders
      | Inr serialDate \<Rightarrow>
          (let format = \<lparr>Borders = None,
                          HorizontalAlignment = horizontalAlignment s,
                          NumberFormat = Some (Styler_DateFormat s),
                          TextFormat = Some (Styler_TextFormat s),
                          VerticalAlignment = verticalAlignment s\<rparr>;
               format = (case borders of
                           None \<Rightarrow> format
                         | Some conf \<Rightarrow> format\<lparr>Borders := Some (CellBorders conf)\<rparr>)
           in \<lparr>UserEnteredFormat = Some format,
               UserEnteredValue = Some (NumberValue serialDate)\<rparr>))"

section \<open>Row removal: what the code does\<close>

lemma sint_succ: "sint (i :: go_int) < 2 ^ 63 - 1 \<Longrightarrow> sint (i + 1) = sint i + 1"
proof -
  assume a: "sint i < 2 ^ 63 - 1"
  have lo: "- (2 ^ 63) \<le> sint i"
    using sint_ge [of i] by simp
  have "sint (i + 1) = signed_take_bit 63 (sint i + 1)"
    by (simp add: sint_word_ariths)
  also have "\<dots> = sint i + 1"
    by (rule signed_take_bit_int_eq_self) (use a lo in simp_all)
  finally show ?thesis .
qed

lemma sint_minus2: "0 \<le> sint (i :: go_int) \<Longrightarrow> sint (i - 2) = sint i - 2"
proof -
  assume a: "0 \<le> sint i"
  have hi: "sint i < 2 ^ 63"
    using sint_lt [of i] by simp
  have "sint (i - 2) = signed_take_bit 63 (sint i - 2)"
    by (simp add: sint_word_ariths)
  also have "\<dots> = sint i - 2"
    by (rule signed_take_bit_int_eq_self) (use a hi in simp_all)
  finally show ?thesis .
qed

text \<open>
  The third branch: for an index inside the rows, the two slice expressions are in bounds
  and the append writes into the rows' own backing array.
\<close>

lemma RemoveRow_inside:
  assumes "valid_slice R" and "k < length (elems R)" and "sint i = int k"
  shows "RemoveRow R i = Inr (append_slices
           \<lparr>elems = take k (elems R), spare = drop k (elems R) @ spare R\<rparr>
           \<lparr>elems = drop (Suc k) (elems R), spare = spare R\<rparr>)"
proof -
  have "sint i < 2 ^ 63 - 1"
    using assms by (simp add: valid_slice_def cap_slice_def)
  then have s: "sint (i + 1) = int (Suc k)"
    using sint_succ [of i] assms(3) by simp
  show ?thesis
    unfolding RemoveRow_def s unfolding assms(3) using assms(2)
    by (simp add: len_slice_def slice_high_def slice_low_def cap_slice_def nat_add_distrib)
qed

lemma RemoveRow_append_fits:
  assumes "k < length (elems R)"
  shows "append_slices
           \<lparr>elems = take k (elems R), spare = drop k (elems R) @ spare R\<rparr>
           \<lparr>elems = drop (Suc k) (elems R), spare = spare R\<rparr>
         = \<lparr>elems = take k (elems R) @ drop (Suc k) (elems R),
            spare = last (elems R) # spare R\<rparr>"
proof -
  have ne: "drop k (elems R) \<noteq> []"
    using assms by simp
  have "drop (length (elems R) - Suc k) (drop k (elems R)) = [last (drop k (elems R))]"
    using assms
    by (metis ne append_butlast_last_id append_eq_conv_conj length_butlast length_drop
        diff_diff_left plus_1_eq_Suc add.commute)
  moreover have "last (drop k (elems R)) = last (elems R)"
    using assms by simp
  ultimately show ?thesis
    using assms by (simp add: append_slices_def len_slice_def cap_slice_def)
qed

text \<open>
  An index beyond the length is no removal, as long as \<^verbatim>\<open>rmvIdx+1\<close> does not wrap
  around.
\<close>

lemma RemoveRow_beyond_length:
  assumes "len_slice rows < sint rmvIdx" and "sint rmvIdx < 2 ^ 63 - 1"
  shows "RemoveRow rows rmvIdx = Inr rows"
  using assms sint_succ [of rmvIdx] by (simp add: RemoveRow_def)

text \<open>
  Claim C1, as stated: removing index 0 from the empty row sequence returns the empty
  sequence and does not crash. The code does crash here: the length equals the index, so
  the first branch takes \<^verbatim>\<open>rows[:rmvIdx-2]\<close>, which is \<^verbatim>\<open>rows[:-2]\<close>. The theorem
  evaluates the code on the empty rows, whatever their capacity.
\<close>

theorem RemoveRow_empty_zero_panics:
  "RemoveRow \<lparr>elems = [], spare = sp\<rparr> 0 = Inl SliceBoundsOutOfRange"
  by (simp add: RemoveRow_def len_slice_def slice_high_def)

text \<open>
  Claim C2: for rows with at least two elements, removing at the index equal to the
  length returns the rows without their last two elements, the others in their order.
  The two elements stay in the backing array, behind the result.
\<close>

theorem RemoveRow_index_len_drops_last_two:
  assumes "2 \<le> length (elems rows)" and "sint rmvIdx = int (length (elems rows))"
  shows "RemoveRow rows rmvIdx =
           Inr \<lparr>elems = butlast (butlast (elems rows)),
                spare = drop (length (elems rows) - 2) (elems rows) @ spare rows\<rparr>"
proof -
  have m: "sint (rmvIdx - 2) = int (length (elems rows) - 2)"
    using sint_minus2 [of rmvIdx] assms by simp
  have b: "butlast (butlast (elems rows)) = take (length (elems rows) - 2) (elems rows)"
    by (simp add: butlast_conv_take numeral_2_eq_2)
  show ?thesis
    unfolding RemoveRow_def m b using assms(2)
    by (simp add: len_slice_def slice_high_def cap_slice_def)
qed

theorem RemoveRow_index_len_witness:
  "2 \<le> length (elems \<lparr>elems = [10, 20, 30 :: nat], spare = []\<rparr>)
   \<and> sint (3 :: go_int) = int (length (elems \<lparr>elems = [10, 20, 30 :: nat], spare = []\<rparr>))
   \<and> RemoveRow \<lparr>elems = [10, 20, 30 :: nat], spare = []\<rparr> 3
       = Inr \<lparr>elems = [10], spare = [20, 30]\<rparr>"
  using RemoveRow_index_len_drops_last_two [of "\<lparr>elems = [10, 20, 30 :: nat], spare = []\<rparr>" 3]
  by simp

text \<open>
  Claim C3: for an index \<open>i\<close> with \<open>0 \<le> i < len(R) - 1\<close>, the result has \<open>len(R) - 1\<close>
  elements and is \<open>R\<close> without the element at \<open>i\<close>: the elements before \<open>i\<close>, then those
  after it, in their order.
\<close>

theorem RemoveRow_removes_index:
  assumes "valid_slice R" and "0 \<le> sint i" and "sint i < len_slice R - 1"
  shows "RemoveRow R i =
           Inr \<lparr>elems = take (nat (sint i)) (elems R) @ drop (nat (sint i) + 1) (elems R),
                spare = last (elems R) # spare R\<rparr>
         \<and> length (take (nat (sint i)) (elems R) @ drop (nat (sint i) + 1) (elems R))
             = length (elems R) - 1"
proof -
  define k where "k = nat (sint i)"
  have k: "sint i = int k" and kn: "k < length (elems R)"
    using assms(2,3) by (simp_all add: k_def len_slice_def)
  have "RemoveRow R i = Inr \<lparr>elems = take k (elems R) @ drop (Suc k) (elems R),
                              spare = last (elems R) # spare R\<rparr>"
    using RemoveRow_inside [OF assms(1) kn k] RemoveRow_append_fits [OF kn] by simp
  then show ?thesis
    using kn by (simp add: k_def)
qed

theorem RemoveRow_removes_index_witness:
  "valid_slice \<lparr>elems = [10, 20, 30 :: nat], spare = []\<rparr>
   \<and> 0 \<le> sint (1 :: go_int)
   \<and> sint (1 :: go_int) < len_slice \<lparr>elems = [10, 20, 30 :: nat], spare = []\<rparr> - 1
   \<and> RemoveRow \<lparr>elems = [10, 20, 30 :: nat], spare = []\<rparr> 1
       = Inr \<lparr>elems = [10, 30], spare = [30]\<rparr>"
  using RemoveRow_removes_index [of "\<lparr>elems = [10, 20, 30 :: nat], spare = []\<rparr>" 1]
  by (simp add: valid_slice_def cap_slice_def len_slice_def)

text \<open>
  Claim C7, as stated: every index greater than the length returns the rows unchanged.
  The guard is \<^verbatim>\<open>rmvIdx+1 > len(rows)\<close>, and at the largest \<^verbatim>\<open>int\<close> the sum wraps around
  to the smallest one: the guard fails and \<^verbatim>\<open>rows[:rmvIdx]\<close> is out of range. (Below that
  index the claim holds: lemma \<open>RemoveRow_beyond_length\<close>.)
\<close>

theorem RemoveRow_max_index_panics:
  "RemoveRow \<lparr>elems = [], spare = []\<rparr> 0x7FFFFFFFFFFFFFFF = Inl SliceBoundsOutOfRange"
  by (simp add: RemoveRow_def len_slice_def slice_high_def cap_slice_def)

text \<open>
  Claim C8: for non-empty rows and a negative index the call crashes: neither guard
  holds, and \<^verbatim>\<open>rows[:rmvIdx]\<close> has a negative bound.
\<close>

theorem RemoveRow_negative_index_panics:
  assumes "elems rows \<noteq> []" and "sint rmvIdx < 0"
  shows "RemoveRow rows rmvIdx = Inl SliceBoundsOutOfRange"
  using assms(2) sint_succ [of rmvIdx]
  by (simp add: RemoveRow_def len_slice_def slice_high_def)

theorem RemoveRow_negative_index_witness:
  "elems \<lparr>elems = [10, 20, 30 :: nat], spare = []\<rparr> \<noteq> []
   \<and> sint (- 1 :: go_int) < 0
   \<and> RemoveRow \<lparr>elems = [10, 20, 30 :: nat], spare = []\<rparr> (- 1) = Inl SliceBoundsOutOfRange"
  using RemoveRow_negative_index_panics [of "\<lparr>elems = [10, 20, 30 :: nat], spare = []\<rparr>" "- 1"]
  by simp

section \<open>Rounding, durations and parsing: auxiliary facts\<close>

lemma pow2_nonneg: "0 \<le> e \<Longrightarrow> pow2 e = 2 ^ nat e"
  by (simp add: pow2_def)

lemma pow2_nonpos: "e \<le> 0 \<Longrightarrow> pow2 e = 1 / 2 ^ nat (- e)"
  by (cases "e = 0") (simp_all add: pow2_def)

text \<open>\<open>ilog2\<close> is the exponent: first below 1, then from 1 on.\<close>

lemma ilog2_bounds_small:
  assumes "0 < x" and "x < 1"
  shows "pow2 (ilog2 x) \<le> x \<and> x < pow2 (ilog2 x + 1)"
proof -
  define y where "y = 1 / x"
  have y1: "1 < y"
    using assms by (simp add: y_def)
  have xy: "x = 1 / y"
    by (simp add: y_def)
  define m where "m = \<lceil>y\<rceil>"
  have m2: "2 \<le> m"
    using y1 by (simp add: m_def)
  define c where "c = bitlen (m - 1)"
  have cb: "2 ^ nat (c - 1) \<le> m - 1" "m - 1 < 2 ^ nat c"
    using bitlen_bounds [of "m - 1"] m2 by (simp_all add: c_def)
  have c1: "1 \<le> c"
    using m2 bitlen_eq_zero_iff [of "m - 1"] bitlen_nonneg [of "m - 1"] by (simp add: c_def)
  have e: "ilog2 x = - c"
    using assms(2) by (simp add: ilog2_def y_def m_def c_def)
  have "y \<le> of_int m"
    by (simp add: m_def)
  also have "(of_int m :: rat) \<le> of_int (2 ^ nat c)"
    using cb(2) by (simp only: of_int_le_iff)
  finally have yhi: "y \<le> 2 ^ nat c"
    by simp
  have "(of_int (2 ^ nat (c - 1)) :: rat) \<le> of_int (m - 1)"
    using cb(1) by (simp only: of_int_le_iff)
  also have "(of_int (m - 1) :: rat) < y"
    unfolding m_def by linarith
  finally have ylo: "2 ^ nat (c - 1) < y"
    by simp
  have p1: "pow2 (- c) = 1 / 2 ^ nat c"
    using c1 pow2_nonpos [of "- c"] by simp
  have p2: "pow2 (- c + 1) = 1 / 2 ^ nat (c - 1)"
    using c1 pow2_nonpos [of "- c + 1"] by simp
  have lo: "1 / 2 ^ nat c \<le> 1 / y"
    using yhi y1 by (intro divide_left_mono) simp_all
  have hi: "1 / y < 1 / 2 ^ nat (c - 1)"
    using ylo y1 by (intro divide_strict_left_mono) simp_all
  have "pow2 (ilog2 x) = 1 / 2 ^ nat c" and "pow2 (ilog2 x + 1) = 1 / 2 ^ nat (c - 1)"
    by (simp_all only: e p1 p2)
  then show ?thesis
    using lo hi by (simp only: xy simp_thms)
qed


lemma ilog2_bounds_large:
  assumes "1 \<le> x"
  shows "pow2 (ilog2 x) \<le> x \<and> x < pow2 (ilog2 x + 1)"
proof -
  define n where "n = \<lfloor>x\<rfloor>"
  have n1: "1 \<le> n"
    using assms by (simp add: n_def le_floor_iff)
  define b where "b = bitlen n"
  have bb: "2 ^ nat (b - 1) \<le> n" "n < 2 ^ nat b"
    using bitlen_bounds [of n] n1 by (simp_all add: b_def)
  have b1: "1 \<le> b"
    using n1 bitlen_eq_zero_iff [of n] bitlen_nonneg [of n] by (simp add: b_def)
  have e: "ilog2 x = b - 1"
    using assms by (simp add: ilog2_def n_def b_def)
  have p1: "pow2 (b - 1) = 2 ^ nat (b - 1)"
    using b1 pow2_nonneg [of "b - 1"] by simp
  have p2: "pow2 (b - 1 + 1) = 2 ^ nat b"
    using b1 pow2_nonneg [of b] by simp
  have "(2::rat) ^ nat (b - 1) = of_int (2 ^ nat (b - 1))"
    by simp
  also have "\<dots> \<le> of_int n"
    using bb(1) by (simp only: of_int_le_iff)
  also have "\<dots> \<le> x"
    by (simp add: n_def)
  finally have lo: "2 ^ nat (b - 1) \<le> x" .
  have "n + 1 \<le> 2 ^ nat b"
    using bb(2) by simp
  then have "(of_int (n + 1) :: rat) \<le> of_int (2 ^ nat b)"
    by (simp only: of_int_le_iff)
  moreover have "x < of_int (n + 1)"
    unfolding n_def by linarith
  ultimately have hi: "x < 2 ^ nat b"
    by simp
  show ?thesis
    using lo hi by (simp only: e p1 p2 simp_thms)
qed

lemma ilog2_bounds: "0 < x \<Longrightarrow> pow2 (ilog2 x) \<le> x \<and> x < pow2 (ilog2 x + 1)"
  using ilog2_bounds_small [of x] ilog2_bounds_large [of x] by (cases "1 \<le> x") simp_all

text \<open>Two known values: the \<^verbatim>\<open>float64\<close> nearest to one tenth, and the instant of the Unix epoch.\<close>

lemma round64_tenth: "round64 (1 / 10) = 3602879701896397 / 36028797018963968"
  by code_simp

lemma Date_unix_epoch: "Date 1970 1 1 0 0 0 0 = \<lparr>sec = 62135596800, nsec = 0\<rparr>"
  by code_simp

lemma round_half_even_of_int: "round_half_even (of_int n) = n"
  by (simp add: round_half_even_def)

lemma bitlen_le_53:
  assumes "0 < n" and "n < 2 ^ 53"
  shows "bitlen n \<le> 53"
proof (rule ccontr)
  assume "\<not> bitlen n \<le> 53"
  then have "53 \<le> nat (bitlen n - 1)"
    by simp
  then have "(2::int) ^ 53 \<le> 2 ^ nat (bitlen n - 1)"
    by (rule power_increasing) simp
  also have "\<dots> \<le> n"
    using bitlen_bounds [OF assms(1)] by simp
  finally show False
    using assms(2) by simp
qed

text \<open>An integer below \<open>2 ^ 53\<close> in absolute value is a \<^verbatim>\<open>float64\<close>: converting it is exact.\<close>

lemma round64_of_int:
  assumes "\<bar>n\<bar> < 2 ^ 53"
  shows "round64 (of_int n) = of_int n"
proof (cases "n = 0")
  case True
  then show ?thesis
    by (simp add: round64_def)
next
  case False
  then have pos: "0 < \<bar>n\<bar>"
    by simp
  define e where "e = bitlen \<bar>n\<bar> - 1"
  have e0: "0 \<le> e"
    using pos bitlen_eq_zero_iff [of "\<bar>n\<bar>"] bitlen_nonneg [of "\<bar>n\<bar>"] by (simp add: e_def)
  have e52: "e \<le> 52"
    using bitlen_le_53 [OF pos assms] by (simp add: e_def)
  have il: "ilog2 \<bar>of_int n\<bar> = e"
  proof -
    have f: "\<lfloor>\<bar>of_int n :: rat\<bar>\<rfloor> = \<bar>n\<bar>"
      by (simp flip: of_int_abs)
    have "1 \<le> \<bar>n\<bar>"
      using pos by simp
    then have "(1::rat) \<le> of_int \<bar>n\<bar>"
      by linarith
    then have one: "(1::rat) \<le> \<bar>of_int n\<bar>"
      by simp
    show ?thesis
      unfolding ilog2_def e_def f using one by simp
  qed
  define k where "k = nat (52 - e)"
  have u: "pow2 (max e (- 1022) - 52) = 1 / 2 ^ k"
    using e0 e52 by (auto simp: pow2_def k_def max_def)
  have q: "(of_int n :: rat) / (1 / 2 ^ k) = of_int (n * 2 ^ k)"
    by simp
  have "round64 (of_int n) = of_int (round_half_even (of_int n / (1 / 2 ^ k))) * (1 / 2 ^ k)"
    using False unfolding round64_def il u by (simp add: Let_def)
  also have "\<dots> = of_int (n * 2 ^ k) * (1 / 2 ^ k)"
    unfolding q round_half_even_of_int ..
  also have "\<dots> = of_int n"
    by simp
  finally show ?thesis .
qed

lemma sdiv_mult_self:
  fixes h c :: int
  assumes "0 < c"
  shows "(h * c) sdiv c = h" and "(h * c) smod c = 0"
  using assms
  by (simp_all add: signed_divide_int_def signed_modulo_int_def sgn_mult abs_mult mult_sgn_abs)

lemma Hours_whole:
  assumes "\<bar>h\<bar> < 2 ^ 53"
  shows "Hours (h * 3600000000000) = of_int h"
proof -
  have z: "round64 0 = 0"
    by (simp add: round64_def)
  show ?thesis
    unfolding Hours_def using sdiv_mult_self [of 3600000000000 h]
    by (simp add: round64_of_int [OF assms] z)
qed

text \<open>The start date always parses: the second error return of \<open>SerialDate\<close> is dead.\<close>

lemma Parse_epoch:
  "Parse ext ''1/2/2006'' ''12/30/1899'' = Inr \<lparr>sec = 59926435200, nsec = 0\<rparr>"
  by code_simp


text \<open>
  Within the range of a duration the serial date is exact: for a parsed time at midnight,
  \<open>d\<close> days after January 1 of year 1 and at most 106751 days from the start date
  (day 693593), the result is the day count, with no rounding.
\<close>

lemma SerialDate_whole_days:
  assumes "Parse ext layout value = Inr t"
    and "nsec t = 0" and "sec t = 86400 * d"
    and "\<bar>d - 693593\<bar> \<le> 106751"
  shows "SerialDate ext value layout = Inr (of_int (d - 693593))"
proof -
  define k where "k = d - 693593"
  have k: "\<bar>k\<bar> \<le> 106751"
    using assms(4) by (simp add: k_def)
  have d: "(sec t - 59926435200) * 1000000000 + (nsec t - 0) = (24 * k) * 3600000000000"
    using assms(2,3) by (simp add: k_def)
  have "minDuration \<le> (24 * k) * 3600000000000" and "(24 * k) * 3600000000000 \<le> maxDuration"
    using k by (simp_all add: minDuration_def maxDuration_def)
  then have "Sub t \<lparr>sec = 59926435200, nsec = 0\<rparr> = (24 * k) * 3600000000000"
    unfolding Sub_def Time.simps d Let_def by (simp only: simp_thms if_True)
  moreover have "Hours ((24 * k) * 3600000000000) = of_int (24 * k)"
    by (rule Hours_whole) (use k in simp)
  moreover have "round64 (of_int (24 * k) / 24) = of_int k"
  proof -
    have "(of_int (24 * k) :: rat) / 24 = of_int k"
      by simp
    moreover have "\<bar>k\<bar> < 2 ^ 53"
      using k by simp
    ultimately show ?thesis
      by (simp only: round64_of_int)
  qed
  ultimately show ?thesis
    by (simp add: SerialDate_def assms(1) Parse_epoch k_def)
qed











section \<open>Serial dates: what the code does\<close>




text \<open>
  A layout with a fraction of a second that may be left out also takes \<open>"not-a-date"\<close>,
  and what \<^verbatim>\<open>nextStdChunk\<close> makes of \<^verbatim>\<open>Month\<close>.
\<close>

lemma SerialDate_optional_fraction_accepts:
  "SerialDate ext ''not-a-date'' ''not-a-date.999'' = Inr (- (7335940973542995 / 68719476736))"
  by code_simp

lemma nextStdChunk_Month:
  "nextStdChunk ''Month: 1/2/2006'' = (''Month: '', stdNumMonth, ''/2/2006'')"
  by code_simp

lemma SerialDate_names_layout:
  "SerialDate ext ''Thursday, March 2, 2023'' ''Monday, January 2, 2006'' = Inr 44987
   \<and> SerialDate ext ''03/02/23'' ''01/02/06'' = Inr 44987"
  by code_simp

text \<open>
  Claim C5, as stated: whenever the value parses, the result is the exact count of days
  between the parsed date and 1899-12-30. For January 1, 2200 the count is 109575 days,
  more than a duration holds: \<^verbatim>\<open>Sub\<close> returns the largest duration and the result is
  about 106751.99. (Up to 106751 days from the start date the result is exact: lemma
  \<open>SerialDate_whole_days\<close>.)
\<close>

theorem SerialDate_saturates:
  "Parse ext ''1/2/2006'' ''1/1/2200'' = Inr (Date 2200 1 1 0 0 0 0)
   \<and> (sec (Date 2200 1 1 0 0 0 0) - sec (Date 1899 12 30 0 0 0 0)) div 86400 = 109575
   \<and> SerialDate ext ''1/1/2200'' ''1/2/2006'' = Inr (7335940973542995 / 68719476736)"
  by code_simp

text \<open>
  Claim C6, as stated: under the month/day/year layout, \<open>"1/1/1900"\<close> maps to 1. January
  1, 1900 is two days after December 30, 1899, and the code returns 2.
\<close>

theorem SerialDate_1900_is_not_1:
  "SerialDate rejecting ''1/1/1900'' ''1/2/2006'' = Inr 2
   \<and> SerialDate rejecting ''1/1/1900'' ''1/2/2006'' \<noteq> Inr 1"
  by code_simp

text \<open>
  Claim C6, amended: under the month/day/year layout \<^verbatim>\<open>1/2/2006\<close>, \<open>SerialDate\<close> maps
  \<open>"12/30/1899"\<close> to 0, \<open>"1/1/1900"\<close> to 2 and \<open>"3/2/2023"\<close> to 44987.
\<close>

theorem SerialDate_examples:
  "SerialDate ext ''12/30/1899'' ''1/2/2006'' = Inr 0
   \<and> SerialDate ext ''1/1/1900'' ''1/2/2006'' = Inr 2
   \<and> SerialDate ext ''3/2/2023'' ''1/2/2006'' = Inr 44987"
  by code_simp

text \<open>
  The string \<^verbatim>\<open>M/D/YYYY\<close> is no month/day/year layout for \<^verbatim>\<open>time.Parse\<close>: none of its
  characters starts an element, so it only matches itself.
\<close>

lemma SerialDate_points_layout:
  "SerialDate ext ''04.07.2021'' ''02.01.2006'' = Inr 44381"
  by code_simp

lemma SerialDate_letters_layout:
  "SerialDate ext ''12/30/1899'' ''M/D/YYYY'' = Inl (ParseError ''M/D/YYYY'' ''12/30/1899'')"
  by code_simp

section \<open>Cells and borders: what the code does\<close>

text \<open>
  Claim C9: when \<open>SerialDate\<close> fails, \<open>DateCell\<close> returns the text cell of the raw date
  string; otherwise the cell's value is the number value of the serial date and its
  number format is the styler's date format. Both cells are written out field by field:
  the string field holds the date as given, the number field holds the serial date, and
  the number format has the styler's date pattern and the type \<open>"DATE"\<close>.
\<close>

theorem DateCell_cases:
  "(SerialDate ext date layout = Inl err \<longrightarrow>
      DateCell ext s date layout b = TextCell s date b
      \<and> UserEnteredValue (TextCell s date b) = Some (TextValue date)
      \<and> StringValue (TextValue date) = Some date
      \<and> TextCell s date b =
          \<lparr>UserEnteredFormat = Some
             \<lparr>Borders = map_option CellBorders b,
              HorizontalAlignment = horizontalAlignment s,
              NumberFormat = None,
              TextFormat = Some
                \<lparr>Bold = fontBold s, FontFamily = fontFamily s, FontSize = fontSize s\<rparr>,
              VerticalAlignment = verticalAlignment s\<rparr>,
           UserEnteredValue = Some
             \<lparr>BoolValue = None, FormulaValue = None, ExtendedValue.NumberValue = None,
              StringValue = Some date\<rparr>\<rparr>)
   \<and> (SerialDate ext date layout = Inr d \<longrightarrow>
      UserEnteredValue (DateCell ext s date layout b) = Some (NumberValue d)
      \<and> map_option CellFormat.NumberFormat (UserEnteredFormat (DateCell ext s date layout b))
          = Some (Some (Styler_DateFormat s))
      \<and> ExtendedValue.NumberValue (NumberValue d) = Some d
      \<and> Styler_DateFormat s = \<lparr>Pattern = datePattern s, Type = ''DATE''\<rparr>
      \<and> DateCell ext s date layout b =
          \<lparr>UserEnteredFormat = Some
             \<lparr>Borders = map_option CellBorders b,
              HorizontalAlignment = horizontalAlignment s,
              NumberFormat = Some \<lparr>Pattern = datePattern s, Type = ''DATE''\<rparr>,
              TextFormat = Some
                \<lparr>Bold = fontBold s, FontFamily = fontFamily s, FontSize = fontSize s\<rparr>,
              VerticalAlignment = verticalAlignment s\<rparr>,
           UserEnteredValue = Some
             \<lparr>BoolValue = None, FormulaValue = None, ExtendedValue.NumberValue = Some d,
              StringValue = None\<rparr>\<rparr>)"
  by (cases b)
     (simp_all add: DateCell_def TextCell_def TextValue_def NumberValue_def
        Styler_DateFormat_def Styler_TextFormat_def)

theorem DateCell_cases_witness:
  "SerialDate rejecting ''not-a-date'' ''2006-01-02''
     = Inl (ParseError ''2006-01-02'' ''not-a-date'')
   \<and> DateCell rejecting NewStyler ''not-a-date'' ''2006-01-02'' None
       = TextCell NewStyler ''not-a-date'' None
   \<and> SerialDate rejecting ''2021-07-04'' ''2006-01-02'' = Inr 44381
   \<and> UserEnteredValue (DateCell rejecting NewStyler ''2021-07-04'' ''2006-01-02'' None)
       = Some (NumberValue 44381)
   \<and> DateCell rejecting NewStyler ''2021-07-04'' ''2006-01-02'' None =
       \<lparr>UserEnteredFormat = Some
          \<lparr>Borders = None,
           HorizontalAlignment = ''LEFT'',
           NumberFormat = Some \<lparr>Pattern = ''M/d/yyyy'', Type = ''DATE''\<rparr>,
           TextFormat = Some \<lparr>Bold = False, FontFamily = ''Verdana'', FontSize = 10\<rparr>,
           VerticalAlignment = ''MIDDLE''\<rparr>,
        UserEnteredValue = Some
          \<lparr>BoolValue = None, FormulaValue = None, ExtendedValue.NumberValue = Some 44381,
           StringValue = None\<rparr>\<rparr>"
proof -
  have a: "SerialDate rejecting ''not-a-date'' ''2006-01-02''
             = Inl (ParseError ''2006-01-02'' ''not-a-date'')"
    by code_simp
  have b: "SerialDate rejecting ''2021-07-04'' ''2006-01-02'' = Inr 44381"
    by code_simp
  note t = DateCell_cases [of rejecting "''not-a-date''" "''2006-01-02''"
    "ParseError ''2006-01-02'' ''not-a-date''" NewStyler None 0]
  note n = DateCell_cases [of rejecting "''2021-07-04''" "''2006-01-02''"
    "ParseError [] []" NewStyler None 44381]
  have c1: "DateCell rejecting NewStyler ''not-a-date'' ''2006-01-02'' None
              = TextCell NewStyler ''not-a-date'' None"
    using a t by blast
  have c2: "UserEnteredValue (DateCell rejecting NewStyler ''2021-07-04'' ''2006-01-02'' None)
              = Some (NumberValue 44381)"
    using b n by blast
  have "DateCell rejecting NewStyler ''2021-07-04'' ''2006-01-02'' None =
       \<lparr>UserEnteredFormat = Some
          \<lparr>Borders = map_option CellBorders None,
           HorizontalAlignment = horizontalAlignment NewStyler,
           NumberFormat = Some \<lparr>Pattern = datePattern NewStyler, Type = ''DATE''\<rparr>,
           TextFormat = Some
             \<lparr>Bold = fontBold NewStyler, FontFamily = fontFamily NewStyler,
              FontSize = fontSize NewStyler\<rparr>,
           VerticalAlignment = verticalAlignment NewStyler\<rparr>,
        UserEnteredValue = Some
          \<lparr>BoolValue = None, FormulaValue = None, ExtendedValue.NumberValue = Some 44381,
           StringValue = None\<rparr>\<rparr>"
    using b n by blast
  then have c3: "DateCell rejecting NewStyler ''2021-07-04'' ''2006-01-02'' None =
       \<lparr>UserEnteredFormat = Some
          \<lparr>Borders = None,
           HorizontalAlignment = ''LEFT'',
           NumberFormat = Some \<lparr>Pattern = ''M/d/yyyy'', Type = ''DATE''\<rparr>,
           TextFormat = Some \<lparr>Bold = False, FontFamily = ''Verdana'', FontSize = 10\<rparr>,
           VerticalAlignment = ''MIDDLE''\<rparr>,
        UserEnteredValue = Some
          \<lparr>BoolValue = None, FormulaValue = None, ExtendedValue.NumberValue = Some 44381,
           StringValue = None\<rparr>\<rparr>"
    by (simp add: NewStyler_def)
  show ?thesis
    using a c1 b c2 c3 by (intro conjI)
qed

text \<open>
  Claim C10: \<open>CellBorders\<close> sets a border on exactly the sides whose flag is true; each
  border it sets has the configured style, or \<open>"SOLID"\<close> for the empty one, and the
  configured colour, or opaque black for none.
\<close>

theorem CellBorders_sides:
  "(Borders.Bottom (CellBorders conf) \<noteq> None \<longleftrightarrow> BorderConf.Bottom conf)
   \<and> (Borders.Left (CellBorders conf) \<noteq> None \<longleftrightarrow> BorderConf.Left conf)
   \<and> (Borders.Right (CellBorders conf) \<noteq> None \<longleftrightarrow> BorderConf.Right conf)
   \<and> (Borders.Top (CellBorders conf) \<noteq> None \<longleftrightarrow> BorderConf.Top conf)
   \<and> (\<forall>side \<in> {Borders.Bottom, Borders.Left, Borders.Right, Borders.Top}.
        \<forall>border. side (CellBorders conf) = Some border \<longrightarrow>
          Border.Style border
            = (if BorderConf.Style conf = [] then ''SOLID'' else BorderConf.Style conf)
          \<and> Border.ColorStyle border
            = Some (case BorderConf.Color conf of
                      None \<Rightarrow> \<lparr>RgbColor = Some \<lparr>Alpha = 1, Blue = 0, Green = 0, Red = 0\<rparr>\<rparr>
                    | Some c \<Rightarrow> c))"
  by (auto simp: CellBorders_def BLACK_COLOR_def Color_def Let_def
      split: if_splits option.splits)

theorem CellBorders_sides_witness:
  "CellBorders
     \<lparr>Bottom = True, Left = False, Right = True, Style = [], Top = False, Color = None\<rparr>
     = \<lparr>Borders.Bottom =
          Some \<lparr>ColorStyle = Some \<lparr>RgbColor = Some \<lparr>Alpha = 1, Blue = 0, Green = 0, Red = 0\<rparr>\<rparr>,
                Border.Style = ''SOLID''\<rparr>,
        Borders.Left = None,
        Borders.Right =
          Some \<lparr>ColorStyle = Some \<lparr>RgbColor = Some \<lparr>Alpha = 1, Blue = 0, Green = 0, Red = 0\<rparr>\<rparr>,
                Border.Style = ''SOLID''\<rparr>,
        Borders.Top = None\<rparr>"
  using CellBorders_sides
    [of "\<lparr>Bottom = True, Left = False, Right = True, Style = [], Top = False, Color = None\<rparr>"]
  by (simp add: CellBorders_def BLACK_COLOR_def Color_def Let_def)


end
